theory Spec2Isabelle
  imports Main "HOL-Library.Sublist"
begin

section \<open>The export service of app.py\<close>

text \<open>
  The theory embeds the two functions of \<^verbatim>\<open>src/app.py\<close> that carry logic:
  \<^verbatim>\<open>build_query_and_params\<close> (lines 56-149), which turns the request's query parameters
  into an SQL text with \<^verbatim>\<open>%s\<close> placeholders and a positional parameter list, and the
  \<^verbatim>\<open>/export\<close> endpoint (lines 154-184), which runs the query and renders the result as
  JSON or CSV. The database and pandas are collaborators of the endpoint and appear as
  parameters.
\<close>

subsection \<open>Python strings\<close>

text \<open>
  A Python \<^verbatim>\<open>str\<close> is a \<^typ>\<open>string\<close>: a list of characters, each read as a code
  point below 256. \<^verbatim>\<open>str.strip()\<close> removes leading and trailing white space; the code
  points below 256 that Python counts as white space are 9-13, 28-31, 32, 133 and 160.
\<close>

definition isspace :: "char \<Rightarrow> bool" where
  "isspace c = (of_char c \<in> {9, 10, 11, 12, 13, 28, 29, 30, 31, 32, 133, 160 :: nat})"

definition py_strip :: "string \<Rightarrow> string" where
  "py_strip s = rev (dropWhile isspace (rev (dropWhile isspace s)))"

text \<open>
  \<^verbatim>\<open>s.split(",")\<close>: the segments between the commas, in order; a string without a comma
  (the empty one too) gives one segment.
\<close>

fun split_comma :: "string \<Rightarrow> string list" where
  "split_comma [] = [[]]"
| "split_comma (c # cs) =
     (if c = CHR '','' then [] # split_comma cs
      else (case split_comma cs of
              [] \<Rightarrow> [[c]]
            | w # ws \<Rightarrow> (c # w) # ws))"

text \<open>\<^verbatim>\<open>sep.join(xs)\<close>.\<close>

fun py_join :: "string \<Rightarrow> string list \<Rightarrow> string" where
  "py_join sep [] = []"
| "py_join sep [x] = x"
| "py_join sep (x # y # ys) = x @ sep @ py_join sep (y # ys)"

text \<open>
  \<^verbatim>\<open>str.lower()\<close> on code points below 256: the letters A-Z and the capital letters
  192-222 of Latin-1 (215, the multiplication sign, is not one) move up by 32.
\<close>

definition lower_char :: "char \<Rightarrow> char" where
  "lower_char c =
     (let n = (of_char c :: nat)
      in if (65 \<le> n \<and> n \<le> 90) \<or> (192 \<le> n \<and> n \<le> 222 \<and> n \<noteq> 215)
         then char_of (n + 32) else c)"

definition py_lower :: "string \<Rightarrow> string" where
  "py_lower s = map lower_char s"

subsection \<open>Errors\<close>

text \<open>
  The only operation of \<^verbatim>\<open>build_query_and_params\<close> that can raise is a dictionary
  subscript \<^verbatim>\<open>d[k]\<close>, which raises \<^verbatim>\<open>KeyError\<close> on a missing key.
\<close>

datatype error = KeyError string

definition getitem :: "(string \<rightharpoonup> 'v) \<Rightarrow> string \<Rightarrow> error + 'v" where
  "getitem d k = (case d k of None \<Rightarrow> Inl (KeyError k) | Some v \<Rightarrow> Inr v)"

definition bind :: "error + 'a \<Rightarrow> ('a \<Rightarrow> error + 'b) \<Rightarrow> error + 'b" where
  "bind m f = (case m of Inl e \<Rightarrow> Inl e | Inr x \<Rightarrow> f x)"

subsection \<open>The query text\<close>

text \<open>
  The literal of lines 62-112, in three consecutive pieces: the text before the
  \<^verbatim>\<open>CASE\<close> expression of the select list, that expression, and the text after it.
\<close>

definition select_head :: string where
  "select_head = ''
        SELECT
            d.district_name    AS district,
            b.block            AS block,
            c.cluster          AS cluster,
            s.udise_id         AS udise_id,
            s.school_name      AS school_name,
            sm.school_management AS school_management,
            ''"

definition category_case :: string where
  "category_case = ''CASE s.school_assam_category_id
                WHEN 1 THEN 'LP'
                WHEN 2 THEN 'UP'
                WHEN 3 THEN 'HS'
                WHEN 4 THEN 'HSS'
                ELSE NULL
            END''"

definition from_where :: string where
  "from_where = '' AS school_category,
            st.total_students,
            st.total_students_present,
            sf.total_teaching_staff,
            sf.total_non_teaching_staff,
            sf.total_teaching_staff_present,
            sf.total_non_teaching_staff_present
        FROM core_db.tbl_rp_school_registration_2025_2026 s
        LEFT JOIN ref_db.district d ON s.district_id = d.district_id
        LEFT JOIN ref_db.blocks b ON s.block_id = b.block_id
        LEFT JOIN ref_db.cluster c ON s.cluster_id = c.cluster_id
        LEFT JOIN ref_db.school_management sm ON s.school_management_id = sm.school_management_id

        LEFT JOIN (
            SELECT
                s.udise_id,
                IFNULL(SUM(registered_students), 0) AS total_students,
                IFNULL(SUM(present), 0) AS total_students_present
            FROM core_db.tbl_rp_students_summery_today_2025_2026 s
            WHERE s.report_date = CURDATE()
            GROUP BY s.udise_id
        ) st ON s.udise_id = st.udise_id

        LEFT JOIN (
            SELECT
                s.udise_id,
                IFNULL(SUM(CASE WHEN staff_type_id = 1 THEN total_staff END), 0) AS total_teaching_staff,
                IFNULL(SUM(CASE WHEN staff_type_id != 1 THEN total_staff END), 0) AS total_non_teaching_staff,
                IFNULL(SUM(CASE WHEN staff_type_id = 1 THEN present END), 0) AS total_teaching_staff_present,
                IFNULL(SUM(CASE WHEN staff_type_id != 1 THEN present END), 0) AS total_non_teaching_staff_present
            FROM core_db.tbl_rp_staff_registration_2025_2026 s
            WHERE s.report_date = CURDATE()
            GROUP BY s.udise_id
        ) sf ON s.udise_id = sf.udise_id

        WHERE s.report_date = CURDATE()
    ''"

definition base_query :: string where
  "base_query = select_head @ category_case @ from_where"

text \<open>The literal of lines 145-147.\<close>

definition order_by :: string where
  "order_by = '' 
        ORDER BY s.district_id, s.block_id, s.cluster_id, s.udise_id
    ''"

subsection \<open>build\_query\_and\_params\<close>

text \<open>
  A bound parameter is a string (a filter value) or an integer (a category id); the
  list \<^verbatim>\<open>params\<close> holds both.
\<close>

datatype param = PStr string | PInt int

text \<open>The two lists the function appends to (lines 114-115).\<close>

record builder =
  filters :: "string list"
  params :: "param list"

text \<open>
  \<^verbatim>\<open>[v.strip() for v in raw.split(",") if v.strip()]\<close> (lines 119 and 135): a non-empty
  string is true.
\<close>

definition split_values :: "string \<Rightarrow> string list" where
  "split_values raw = map py_strip (filter (\<lambda>v. py_strip v \<noteq> []) (split_comma raw))"

text \<open>\<^verbatim>\<open>f"{field} IN ({placeholders})"\<close> with \<^verbatim>\<open>", ".join(["%s"] * n)\<close>.\<close>

definition placeholders :: "nat \<Rightarrow> string" where
  "placeholders n = py_join '', '' (replicate n ''%s'')"

definition in_clause :: "string \<Rightarrow> nat \<Rightarrow> string" where
  "in_clause field n = field @ '' IN ('' @ placeholders n @ '')''"

text \<open>
  \<^verbatim>\<open>add_in_clause\<close> (lines 117-123) closes over \<^verbatim>\<open>query_params\<close>, \<^verbatim>\<open>filters\<close>
  and \<^verbatim>\<open>params\<close>; here it takes the dictionary and the two lists and returns the lists.
  The dictionary is subscripted twice, in the condition and in the comprehension.
\<close>

definition add_in_clause ::
  "(string \<rightharpoonup> string) \<Rightarrow> string \<Rightarrow> string \<Rightarrow> builder \<Rightarrow> error + builder" where
  "add_in_clause query_params field param_name st =
     (if query_params param_name = None then Inr st
      else bind (getitem query_params param_name) (\<lambda>truthy.
        if truthy = [] then Inr st
        else bind (getitem query_params param_name) (\<lambda>raw.
          let vals = split_values raw
          in if vals = [] then Inr st
             else Inr (st\<lparr>filters := filters st @ [in_clause field (length vals)],
                          params := params st @ map PStr vals\<rparr>))))"

text \<open>The table of line 134.\<close>

definition mappings :: "string \<rightharpoonup> int" where
  "mappings = [''LP'' \<mapsto> 1, ''UP'' \<mapsto> 2, ''HS'' \<mapsto> 3, ''HSS'' \<mapsto> 4]"

text \<open>\<^verbatim>\<open>[mappings[t] for t in types if t in mappings]\<close> (line 136).\<close>

fun lookup_ids :: "string list \<Rightarrow> error + int list" where
  "lookup_ids [] = Inr []"
| "lookup_ids (t # ts) =
     (if mappings t = None then lookup_ids ts
      else bind (getitem mappings t) (\<lambda>i. bind (lookup_ids ts) (\<lambda>ids. Inr (i # ids))))"

text \<open>Lines 133-140, on the two lists.\<close>

definition school_type_clause :: "(string \<rightharpoonup> string) \<Rightarrow> builder \<Rightarrow> error + builder" where
  "school_type_clause query_params st =
     (if query_params ''school_type'' = None then Inr st
      else bind (getitem query_params ''school_type'') (\<lambda>truthy.
        if truthy = [] then Inr st
        else bind (getitem query_params ''school_type'') (\<lambda>raw.
          let types = split_values raw
          in bind (lookup_ids types) (\<lambda>ids.
               if ids = [] then Inr st
               else Inr (st\<lparr>filters := filters st
                                @ [in_clause ''s.school_assam_category_id'' (length ids)],
                            params := params st @ map PInt ids\<rparr>)))))"

text \<open>Lines 114-140: the two lists after the five text filters and the school type.\<close>

definition apply_filters :: "(string \<rightharpoonup> string) \<Rightarrow> error + builder" where
  "apply_filters query_params =
     bind (add_in_clause query_params ''d.district_name'' ''district''
             \<lparr>filters = [], params = []\<rparr>) (\<lambda>st1.
     bind (add_in_clause query_params ''b.block'' ''block'' st1) (\<lambda>st2.
     bind (add_in_clause query_params ''c.cluster'' ''cluster'' st2) (\<lambda>st3.
     bind (add_in_clause query_params ''sm.school_management'' ''school_management'' st3) (\<lambda>st4.
     bind (add_in_clause query_params ''g.geography'' ''geography'' st4) (\<lambda>st5.
     school_type_clause query_params st5)))))"

text \<open>Lines 142-149.\<close>

definition build_query_and_params :: "(string \<rightharpoonup> string) \<Rightarrow> error + string \<times> param list" where
  "build_query_and_params query_params =
     bind (apply_filters query_params) (\<lambda>st.
       let sql = (if filters st \<noteq> []
                  then base_query @ '' AND '' @ py_join '' AND '' (filters st)
                  else base_query)
       in Inr (sql @ order_by, params st))"


subsection \<open>The export endpoint\<close>

text \<open>The configuration read from the environment (lines 31-32).\<close>

record config =
  api_key_required :: bool
  api_key :: string

text \<open>
  What the endpoint reads of a request: \<^verbatim>\<open>dict(request.query_params)\<close> and the headers,
  keyed by their lower-case names.
\<close>

record request =
  req_query_params :: "string \<rightharpoonup> string"
  req_headers :: "string \<rightharpoonup> string"

text \<open>
  The collaborators of the endpoint. \<^verbatim>\<open>read_sql\<close> stands for lines 168-171
  (\<^verbatim>\<open>get_connection\<close>, \<^verbatim>\<open>pd.read_sql\<close>, \<^verbatim>\<open>conn.close\<close>): it returns the data frame,
  or the text of the exception that the \<^verbatim>\<open>try\<close> block catches. \<^verbatim>\<open>to_dict\<close> is
  \<^verbatim>\<open>df.to_dict(orient="records")\<close> and \<^verbatim>\<open>to_csv\<close> is the text that
  \<^verbatim>\<open>df.to_csv(csv_buffer, index=False)\<close> writes.
\<close>

record ('df, 'j) collaborators =
  read_sql :: "string \<Rightarrow> param list \<Rightarrow> string + 'df"
  to_dict :: "'df \<Rightarrow> 'j"
  to_csv :: "'df \<Rightarrow> string"

text \<open>
  What the endpoint returns: a pair of a dictionary and a status code (lines 162 and
  173), the list of records (line 176), or a streaming response with its body, media type
  and headers (line 184).
\<close>

datatype 'j response =
    ErrorTuple "(string \<times> string) list" nat
  | Records 'j
  | StreamingResponse string string "(string \<times> string) list"

text \<open>\<^verbatim>\<open>q.get("apikey") or request.headers.get("x-api-key")\<close> (line 160).\<close>

definition request_key :: "request \<Rightarrow> string option" where
  "request_key request =
     (case req_query_params request ''apikey'' of
        None \<Rightarrow> req_headers request ''x-api-key''
      | Some k \<Rightarrow> if k \<noteq> [] then Some k else req_headers request ''x-api-key'')"

text \<open>
  Lines 155-184. The call of \<^verbatim>\<open>build_query_and_params\<close> stands outside the
  \<^verbatim>\<open>try\<close> block, so an exception of it would leave the endpoint.
\<close>

definition export :: "config \<Rightarrow> ('df, 'j) collaborators \<Rightarrow> request \<Rightarrow> error + 'j response" where
  "export cfg ext request =
     (let q = req_query_params request
      in if api_key_required cfg \<and> request_key request \<noteq> Some (api_key cfg)
         then Inr (ErrorTuple [(''error'', ''invalid API key'')] 401)
         else bind (build_query_and_params q) (\<lambda>(sql, ps).
           let out_format = py_lower (case q ''format'' of None \<Rightarrow> ''csv'' | Some f \<Rightarrow> f)
           in case read_sql ext sql ps of
                Inl detail \<Rightarrow>
                  Inr (ErrorTuple [(''error'', ''database error''), (''detail'', detail)] 500)
              | Inr df \<Rightarrow>
                  if out_format = ''json'' then Inr (Records (to_dict ext df))
                  else Inr (StreamingResponse (to_csv ext df) ''text/csv''
                         [(''Content-Disposition'', ''attachment; filename=export.csv'')])))"

subsection \<open>Notions used in the statements\<close>

text \<open>
  The values a request gives for a filter: the trimmed non-blank segments of the key's
  value, none when the key is absent.
\<close>

definition filter_values :: "(string \<rightharpoonup> string) \<Rightarrow> string \<Rightarrow> string list" where
  "filter_values query_params k =
     (case query_params k of None \<Rightarrow> [] | Some raw \<Rightarrow> split_values raw)"

text \<open>The category ids a request gives: its school types that the table knows, mapped.\<close>

definition category_ids :: "(string \<rightharpoonup> string) \<Rightarrow> int list" where
  "category_ids query_params =
     List.map_filter mappings (filter_values query_params ''school_type'')"

text \<open>The predicate for \<open>n\<close> values on a column: none when there is no value.\<close>

definition clause :: "string \<Rightarrow> nat \<Rightarrow> string list" where
  "clause field n = (if n = 0 then [] else [in_clause field n])"

text \<open>The five keys that \<^const>\<open>add_in_clause\<close> is called with (lines 126-130).\<close>

definition text_keys :: "string list" where
  "text_keys = [''district'', ''block'', ''cluster'', ''school_management'', ''geography'']"

text \<open>The keys the docstring lists (line 58).\<close>

definition recognized_keys :: "string list" where
  "recognized_keys = text_keys @ [''school_type'']"

text \<open>How many non-blank segments the value of each key has.\<close>

definition segment_counts :: "(string \<rightharpoonup> string) \<Rightarrow> nat list" where
  "segment_counts q = map (\<lambda>k. length (filter_values q k)) recognized_keys"

text \<open>
  The predicates and the parameters of a request, in the order of lines 126-140.
\<close>

definition all_filters :: "(string \<rightharpoonup> string) \<Rightarrow> string list" where
  "all_filters q =
     clause ''d.district_name'' (length (filter_values q ''district''))
     @ clause ''b.block'' (length (filter_values q ''block''))
     @ clause ''c.cluster'' (length (filter_values q ''cluster''))
     @ clause ''sm.school_management'' (length (filter_values q ''school_management''))
     @ clause ''g.geography'' (length (filter_values q ''geography''))
     @ clause ''s.school_assam_category_id'' (length (category_ids q))"

definition all_params :: "(string \<rightharpoonup> string) \<Rightarrow> param list" where
  "all_params q =
     map PStr (filter_values q ''district'')
     @ map PStr (filter_values q ''block'')
     @ map PStr (filter_values q ''cluster'')
     @ map PStr (filter_values q ''school_management'')
     @ map PStr (filter_values q ''geography'')
     @ map PInt (category_ids q)"

text \<open>
  What the query text can depend on: how many values each text filter has, and how many
  category ids there are.
\<close>

definition filter_shape :: "(string \<rightharpoonup> string) \<Rightarrow> nat list \<times> nat" where
  "filter_shape q = (map (\<lambda>k. length (filter_values q k)) text_keys, length (category_ids q))"

text \<open>
  A value that names nothing: the key is absent, or every segment of its value is empty
  after trimming (the empty value has one empty segment).
\<close>

definition blank_value :: "string option \<Rightarrow> bool" where
  "blank_value v =
     (case v of None \<Rightarrow> True
      | Some raw \<Rightarrow> list_all (\<lambda>seg. py_strip seg = []) (split_comma raw))"

text \<open>The request with its \<^verbatim>\<open>format\<close> parameter set.\<close>

definition with_format :: "request \<Rightarrow> string \<Rightarrow> request" where
  "with_format request f =
     request\<lparr>req_query_params := (req_query_params request)(''format'' \<mapsto> f)\<rparr>"

subsection \<open>A sample deployment\<close>

text \<open>
  A configuration without the API key check, and a database that answers every query
  with one row; data frames and record lists are lists of rows here, and the CSV text
  joins the cells with commas and the rows with line breaks.
\<close>

definition sample_config :: config where
  "sample_config = \<lparr>api_key_required = False, api_key = ''secret''\<rparr>"

definition sample_collaborators :: "(string list list, string list list) collaborators" where
  "sample_collaborators =
     \<lparr>read_sql = (\<lambda>sql ps. Inr [[''Kamrup'', ''LP'']]),
      to_dict = (\<lambda>df. df),
      to_csv = (\<lambda>df. py_join ''\<newline>'' (map (py_join '','') df))\<rparr>"

definition sample_request :: "string \<Rightarrow> request" where
  "sample_request f = \<lparr>req_query_params = [''format'' \<mapsto> f], req_headers = Map.empty\<rparr>"

section \<open>Properties\<close>

subsection \<open>Splitting and joining\<close>

lemma split_comma_not_Nil: "split_comma s \<noteq> []"
  by (induction s) (auto split: list.splits)

lemma split_comma_no_comma: "w \<in> set (split_comma s) \<Longrightarrow> CHR '','' \<notin> set w"
  by (induction s arbitrary: w) (auto split: list.splits if_splits)

lemma join_split_comma: "py_join '','' (split_comma s) = s"
proof (induction s)
  case Nil
  show ?case by simp
next
  case (Cons c cs)
  obtain w ws where sp: "split_comma cs = w # ws"
    using split_comma_not_Nil [of cs] by (cases "split_comma cs") auto
  show ?case
  proof (cases "c = CHR '',''")
    case True
    with Cons sp show ?thesis by simp
  next
    case False
    with Cons sp show ?thesis by (cases ws) auto
  qed
qed

lemma split_comma_append:
  "CHR '','' \<notin> set w \<Longrightarrow> split_comma (w @ CHR '','' # s) = w # split_comma s"
  by (induction w) auto

lemma split_comma_plain: "CHR '','' \<notin> set w \<Longrightarrow> split_comma w = [w]"
  by (induction w) auto

lemma split_comma_join:
  "segs \<noteq> [] \<Longrightarrow> \<forall>w\<in>set segs. CHR '','' \<notin> set w \<Longrightarrow> split_comma (py_join '','' segs) = segs"
proof (induction segs)
  case Nil
  then show ?case by simp
next
  case (Cons x xs)
  show ?case
  proof (cases xs)
    case Nil
    with Cons.prems show ?thesis by (simp add: split_comma_plain)
  next
    case (Cons y ys)
    with Cons.IH Cons.prems split_comma_append [of x "py_join '','' xs"]
    show ?thesis by simp
  qed
qed

lemma split_values_Nil: "split_values [] = []"
  by (simp add: split_values_def py_strip_def)

subsection \<open>What the function computes\<close>

lemma bind_Inr: "bind (Inr x) f = f x"
  by (simp add: bind_def)

lemma add_in_clause_eq:
  "add_in_clause q field k st =
     Inr (if filter_values q k = [] then st
          else st\<lparr>filters := filters st @ [in_clause field (length (filter_values q k))],
                  params := params st @ map PStr (filter_values q k)\<rparr>)"
  by (cases "q k")
     (auto simp: add_in_clause_def filter_values_def getitem_def bind_def Let_def split_values_Nil)

lemma lookup_ids_eq: "lookup_ids ts = Inr (List.map_filter mappings ts)"
  by (induction ts) (auto simp: getitem_def bind_def)

lemma school_type_clause_eq:
  "school_type_clause q st =
     Inr (if category_ids q = [] then st
          else st\<lparr>filters := filters st
                      @ [in_clause ''s.school_assam_category_id'' (length (category_ids q))],
                  params := params st @ map PInt (category_ids q)\<rparr>)"
  by (cases "q ''school_type''")
     (auto simp: school_type_clause_def filter_values_def category_ids_def getitem_def bind_def
        Let_def split_values_Nil lookup_ids_eq)

lemma clause_add:
  "(if vs = [] then st
    else st\<lparr>filters := filters st @ [in_clause field (length vs)], params := params st @ ps\<rparr>) =
   st\<lparr>filters := filters st @ clause field (length vs),
      params := params st @ (if vs = [] then [] else ps)\<rparr>"
  by (simp add: clause_def)

lemma apply_filters_eq:
  "apply_filters q = Inr \<lparr>filters = all_filters q, params = all_params q\<rparr>"
  unfolding apply_filters_def add_in_clause_eq school_type_clause_eq bind_Inr clause_add
  by (simp add: all_filters_def all_params_def)

lemma build_eq:
  "build_query_and_params q =
     Inr ((if all_filters q \<noteq> [] then base_query @ '' AND '' @ py_join '' AND '' (all_filters q)
           else base_query) @ order_by, all_params q)"
  by (simp add: build_query_and_params_def apply_filters_eq bind_Inr)

subsection \<open>Values per key\<close>

lemma filter_values_upd_other:
  "k \<noteq> k' \<Longrightarrow> filter_values (q(k' := v)) k = filter_values q k"
  by (simp add: filter_values_def)

lemma filter_values_upd_None: "filter_values (q(k := None)) k = []"
  by (simp add: filter_values_def)

lemma filter_values_empty: "filter_values Map.empty k = []"
  by (simp add: filter_values_def)

lemma category_ids_upd_other:
  "k' \<noteq> ''school_type'' \<Longrightarrow> category_ids (q(k' := v)) = category_ids q"
  by (simp add: category_ids_def filter_values_upd_other)

lemma clause_0: "clause field 0 = []"
  by (simp add: clause_def)

lemma only_geography:
  "k \<noteq> ''geography'' \<Longrightarrow> filter_values [''geography'' \<mapsto> v] k = []"
  by (simp add: filter_values_def)

lemma only_school_type:
  "k \<noteq> ''school_type'' \<Longrightarrow> filter_values [''school_type'' \<mapsto> v] k = []"
  by (simp add: filter_values_def)

lemma blank_value_no_values: "blank_value (q k) \<Longrightarrow> filter_values q k = []"
  by (cases "q k") (auto simp: blank_value_def filter_values_def split_values_def list_all_iff
      filter_empty_conv)

lemmas eval_values = split_values_def py_strip_def isspace_def

subsection \<open>Dropping one key\<close>

lemma all_params_drop_geography:
  "length (all_params q)
     = length (all_params (q(''geography'' := None))) + length (filter_values q ''geography'')"
  by (simp add: all_params_def filter_values_upd_other filter_values_upd_None
      category_ids_upd_other)

lemma all_filters_drop_geography:
  "filter_values q ''geography'' = [] \<Longrightarrow> all_filters (q(''geography'' := None)) = all_filters q"
  by (simp add: all_filters_def filter_values_upd_other filter_values_upd_None
      category_ids_upd_other)

lemma all_params_drop_geography_eq:
  "filter_values q ''geography'' = [] \<Longrightarrow> all_params (q(''geography'' := None)) = all_params q"
  by (simp add: all_params_def filter_values_upd_other filter_values_upd_None
      category_ids_upd_other)

lemma all_filters_drop_school_type:
  "all_filters q = all_filters (q(''school_type'' := None))
     @ clause ''s.school_assam_category_id'' (length (category_ids q))"
  by (simp add: all_filters_def filter_values_upd_other category_ids_def filter_values_upd_None
      clause_0)

lemma all_params_drop_school_type:
  "all_params q = all_params (q(''school_type'' := None)) @ map PInt (category_ids q)"
  by (simp add: all_params_def filter_values_upd_other category_ids_def filter_values_upd_None)

lemma build_ignores_format:
  "build_query_and_params (q(''format'' := v)) = build_query_and_params q"
  by (simp add: build_eq all_filters_def all_params_def filter_values_upd_other
      category_ids_upd_other)

lemma mappings_iff:
  "(mappings t = Some c) = ((t, c) \<in> {(''LP'', 1), (''UP'', 2), (''HS'', 3), (''HSS'', 4)})"
  by (auto simp: mappings_def split: if_splits)

subsection \<open>The result in full, and examples\<close>

lemma filter_values_of_segments:
  assumes "q k = Some (py_join '','' segs)" and "segs \<noteq> []"
    and "CHR '','' \<notin> set (concat segs)"
  shows "filter_values q k = filter (\<lambda>v. v \<noteq> []) (map py_strip segs)"
proof -
  from assms(3) have "\<forall>seg\<in>set segs. CHR '','' \<notin> set seg"
    by auto
  with assms(2) have "split_comma (py_join '','' segs) = segs"
    by (rule split_comma_join)
  with assms(1) show ?thesis
    by (simp add: filter_values_def split_values_def filter_map comp_def)
qed

lemma build_without_geography:
  "build_query_and_params (q(''geography'' := None)) =
     Inr ((if clause ''d.district_name'' (length (filter_values q ''district''))
              @ clause ''b.block'' (length (filter_values q ''block''))
              @ clause ''c.cluster'' (length (filter_values q ''cluster''))
              @ clause ''sm.school_management'' (length (filter_values q ''school_management''))
              @ clause ''s.school_assam_category_id'' (length (category_ids q)) = []
           then base_query
           else base_query @ '' AND '' @ py_join '' AND ''
                  (clause ''d.district_name'' (length (filter_values q ''district''))
                   @ clause ''b.block'' (length (filter_values q ''block''))
                   @ clause ''c.cluster'' (length (filter_values q ''cluster''))
                   @ clause ''sm.school_management'' (length (filter_values q ''school_management''))
                   @ clause ''s.school_assam_category_id'' (length (category_ids q)))) @ order_by,
          map PStr (filter_values q ''district'')
          @ map PStr (filter_values q ''block'')
          @ map PStr (filter_values q ''cluster'')
          @ map PStr (filter_values q ''school_management'')
          @ map PInt (category_ids q))"
  by (simp add: build_eq all_filters_def all_params_def filter_values_upd_other
      filter_values_upd_None category_ids_upd_other clause_0)

lemma build_without_school_type:
  "build_query_and_params (q(''school_type'' := None)) =
     Inr ((if clause ''d.district_name'' (length (filter_values q ''district''))
              @ clause ''b.block'' (length (filter_values q ''block''))
              @ clause ''c.cluster'' (length (filter_values q ''cluster''))
              @ clause ''sm.school_management'' (length (filter_values q ''school_management''))
              @ clause ''g.geography'' (length (filter_values q ''geography'')) = []
           then base_query
           else base_query @ '' AND '' @ py_join '' AND ''
                  (clause ''d.district_name'' (length (filter_values q ''district''))
                   @ clause ''b.block'' (length (filter_values q ''block''))
                   @ clause ''c.cluster'' (length (filter_values q ''cluster''))
                   @ clause ''sm.school_management'' (length (filter_values q ''school_management''))
                   @ clause ''g.geography'' (length (filter_values q ''geography'')))) @ order_by,
          map PStr (filter_values q ''district'')
          @ map PStr (filter_values q ''block'')
          @ map PStr (filter_values q ''cluster'')
          @ map PStr (filter_values q ''school_management'')
          @ map PStr (filter_values q ''geography''))"
  by (simp add: build_eq all_filters_def all_params_def filter_values_upd_other
      filter_values_upd_None category_ids_def clause_0)

lemma build_full:
  "build_query_and_params q =
     Inr ((if clause ''d.district_name'' (length (filter_values q ''district''))
              @ clause ''b.block'' (length (filter_values q ''block''))
              @ clause ''c.cluster'' (length (filter_values q ''cluster''))
              @ clause ''sm.school_management'' (length (filter_values q ''school_management''))
              @ clause ''g.geography'' (length (filter_values q ''geography''))
              @ clause ''s.school_assam_category_id'' (length (category_ids q)) = []
           then base_query
           else base_query @ '' AND '' @ py_join '' AND ''
                  (clause ''d.district_name'' (length (filter_values q ''district''))
                   @ clause ''b.block'' (length (filter_values q ''block''))
                   @ clause ''c.cluster'' (length (filter_values q ''cluster''))
                   @ clause ''sm.school_management'' (length (filter_values q ''school_management''))
                   @ clause ''g.geography'' (length (filter_values q ''geography''))
                   @ clause ''s.school_assam_category_id'' (length (category_ids q)))) @ order_by,
          map PStr (filter_values q ''district'')
          @ map PStr (filter_values q ''block'')
          @ map PStr (filter_values q ''cluster'')
          @ map PStr (filter_values q ''school_management'')
          @ map PStr (filter_values q ''geography'')
          @ map PInt (category_ids q))"
  by (simp add: build_eq all_filters_def all_params_def)

lemma geography_example:
  "build_query_and_params
     [''district'' \<mapsto> ''D'', ''geography'' \<mapsto> '' G,, G '', ''school_type'' \<mapsto> ''HS'']
   = Inr (base_query
          @ '' AND d.district_name IN (%s) AND g.geography IN (%s, %s) AND s.school_assam_category_id IN (%s)''
          @ order_by,
          [PStr ''D'', PStr ''G'', PStr ''G'', PInt 3])"
proof -
  let ?q = "[''district'' \<mapsto> ''D'', ''geography'' \<mapsto> '' G,, G '', ''school_type'' \<mapsto> ''HS'']"
  have v: "filter_values ?q ''district'' = [''D'']" "filter_values ?q ''block'' = []"
    "filter_values ?q ''cluster'' = []" "filter_values ?q ''school_management'' = []"
    "filter_values ?q ''geography'' = [''G'', ''G'']" "filter_values ?q ''school_type'' = [''HS'']"
    by (simp_all add: filter_values_def eval_values)
  have c: "category_ids ?q = [3]"
    by (simp add: category_ids_def v mappings_def)
  show ?thesis
    by (simp add: build_eq all_filters_def all_params_def v c clause_def in_clause_def
        placeholders_def numeral_2_eq_2)
qed

lemma school_type_spaces_example:
  "build_query_and_params [''school_type'' \<mapsto> '' LP , UP,XX '']
     = Inr (base_query @ '' AND s.school_assam_category_id IN (%s, %s)'' @ order_by,
            [PInt 1, PInt 2])"
proof -
  have c: "category_ids [''school_type'' \<mapsto> '' LP , UP,XX ''] = [1, 2]"
    by (simp add: category_ids_def filter_values_def eval_values mappings_def)
  show ?thesis
    by (simp add: build_eq all_filters_def all_params_def only_school_type c clause_def
        in_clause_def placeholders_def numeral_2_eq_2)
qed

lemma school_type_order_example:
  "build_query_and_params [''district'' \<mapsto> ''D'', ''school_type'' \<mapsto> ''HSS, ,LP , HSS'']
     = Inr (base_query
            @ '' AND d.district_name IN (%s) AND s.school_assam_category_id IN (%s, %s, %s)''
            @ order_by,
            [PStr ''D'', PInt 4, PInt 1, PInt 4])"
proof -
  let ?q = "[''district'' \<mapsto> ''D'', ''school_type'' \<mapsto> ''HSS, ,LP , HSS'']"
  have v: "filter_values ?q ''district'' = [''D'']" "filter_values ?q ''block'' = []"
    "filter_values ?q ''cluster'' = []" "filter_values ?q ''school_management'' = []"
    "filter_values ?q ''geography'' = []"
    by (simp_all add: filter_values_def eval_values)
  have c: "category_ids ?q = [4, 1, 4]"
    by (simp add: category_ids_def filter_values_def eval_values mappings_def)
  show ?thesis
    by (simp add: build_eq all_filters_def all_params_def v c clause_def in_clause_def
        placeholders_def numeral_3_eq_3)
qed

subsection \<open>The endpoint and the format parameter\<close>

lemma lower_char_idem: "lower_char (lower_char c) = lower_char c"
  by (auto simp: lower_char_def Let_def)

lemma py_lower_idem: "py_lower (py_lower s) = py_lower s"
  by (simp add: py_lower_def lower_char_idem)

lemma py_lower_csv: "py_lower ''csv'' = ''csv''"
  by (simp add: py_lower_def lower_char_def)

lemma request_key_with_format: "request_key (with_format request f) = request_key request"
  by (simp add: request_key_def with_format_def split: option.splits)

lemma export_with_format:
  "export cfg ext (with_format request f) =
     (if api_key_required cfg \<and> request_key request \<noteq> Some (api_key cfg)
      then Inr (ErrorTuple [(''error'', ''invalid API key'')] 401)
      else bind (build_query_and_params (req_query_params request)) (\<lambda>(sql, ps).
        case read_sql ext sql ps of
          Inl detail \<Rightarrow>
            Inr (ErrorTuple [(''error'', ''database error''), (''detail'', detail)] 500)
        | Inr df \<Rightarrow>
            if py_lower f = ''json'' then Inr (Records (to_dict ext df))
            else Inr (StreamingResponse (to_csv ext df) ''text/csv''
                   [(''Content-Disposition'', ''attachment; filename=export.csv'')])))"
  unfolding export_def request_key_with_format
  by (simp add: with_format_def build_ignores_format Let_def)

lemma build_sample: "build_query_and_params [''format'' \<mapsto> f] = Inr (base_query @ order_by, [])"
  using build_ignores_format [of Map.empty "Some f"]
  by (simp add: build_eq all_filters_def all_params_def filter_values_empty category_ids_def
      clause_0)

lemma sample_with_format: "with_format (sample_request g) f = sample_request f"
  by (simp add: with_format_def sample_request_def)

lemma export_sample:
  "export sample_config sample_collaborators (sample_request f) =
     (if py_lower f = ''json'' then Inr (Records [[''Kamrup'', ''LP'']])
      else Inr (StreamingResponse ''Kamrup,LP'' ''text/csv''
             [(''Content-Disposition'', ''attachment; filename=export.csv'')]))"
  using export_with_format [of sample_config sample_collaborators "sample_request f" f]
  by (simp add: sample_with_format)
     (simp add: sample_request_def sample_config_def sample_collaborators_def build_sample bind_Inr)

section \<open>The claims\<close>

subsection \<open>C1: filter values never enter the query text\<close>

text \<open>
  Claim C1, as amended. The query text that \<^const>\<open>build_query_and_params\<close> returns
  depends on the request only through the number of non-blank segments of each of the
  five text filters and the number of school types that the table maps: two requests
  with the same \<^const>\<open>filter_shape\<close> get the same query text, whatever their values
  are. The values travel in the parameter lists only, which may differ.
\<close>

theorem query_text_depends_only_on_shape:
  assumes "filter_shape q1 = filter_shape q2"
  shows "\<exists>sql ps1 ps2. build_query_and_params q1 = Inr (sql, ps1)
                       \<and> build_query_and_params q2 = Inr (sql, ps2)"
proof -
  from assms have "all_filters q1 = all_filters q2"
    by (simp add: filter_shape_def text_keys_def all_filters_def)
  then show ?thesis by (simp add: build_eq)
qed

text \<open>
  Two requests of one shape: two districts and one known school type each, the second
  with a district written like SQL and a school type the table does not know.
\<close>

theorem query_text_depends_only_on_shape_witness:
  "filter_shape [''district'' \<mapsto> ''Kamrup, Nalbari'', ''school_type'' \<mapsto> ''HS'']
     = filter_shape [''district'' \<mapsto> ''x) OR 1=1 --, y'', ''school_type'' \<mapsto> ''LP,lp'']
   \<and> (\<exists>sql ps1 ps2.
         build_query_and_params [''district'' \<mapsto> ''Kamrup, Nalbari'', ''school_type'' \<mapsto> ''HS'']
           = Inr (sql, ps1)
         \<and> build_query_and_params [''district'' \<mapsto> ''x) OR 1=1 --, y'', ''school_type'' \<mapsto> ''LP,lp'']
           = Inr (sql, ps2))"
proof -
  have "filter_shape [''district'' \<mapsto> ''Kamrup, Nalbari'', ''school_type'' \<mapsto> ''HS'']
     = filter_shape [''district'' \<mapsto> ''x) OR 1=1 --, y'', ''school_type'' \<mapsto> ''LP,lp'']"
    by (simp add: filter_shape_def text_keys_def category_ids_def filter_values_def eval_values
        mappings_def)
  with query_text_depends_only_on_shape show ?thesis by simp
qed

text \<open>
  Claim C1 as stated fails: the requests \<^verbatim>\<open>school_type=LP\<close> and \<^verbatim>\<open>school_type=XX\<close>
  set the same key with one non-blank segment each, and only the first gets a predicate
  on the category, so the query texts differ.
\<close>

theorem segment_counts_counterexample:
  "dom [''school_type'' \<mapsto> ''LP''] = dom [''school_type'' \<mapsto> ''XX'']
   \<and> segment_counts [''school_type'' \<mapsto> ''LP''] = segment_counts [''school_type'' \<mapsto> ''XX'']
   \<and> build_query_and_params [''school_type'' \<mapsto> ''LP'']
     = Inr (base_query @ '' AND s.school_assam_category_id IN (%s)'' @ order_by, [PInt 1])
   \<and> build_query_and_params [''school_type'' \<mapsto> ''XX''] = Inr (base_query @ order_by, [])
   \<and> base_query @ '' AND s.school_assam_category_id IN (%s)'' @ order_by \<noteq> base_query @ order_by"
proof -
  have s1: "filter_values [''school_type'' \<mapsto> ''LP''] ''school_type'' = [''LP'']"
    and s2: "filter_values [''school_type'' \<mapsto> ''XX''] ''school_type'' = [''XX'']"
    by (simp_all add: filter_values_def eval_values)
  have c1: "category_ids [''school_type'' \<mapsto> ''LP''] = [1]"
    and c2: "category_ids [''school_type'' \<mapsto> ''XX''] = []"
    by (simp_all add: category_ids_def s1 s2 mappings_def)
  have "segment_counts [''school_type'' \<mapsto> ''LP''] = segment_counts [''school_type'' \<mapsto> ''XX'']"
    by (simp add: segment_counts_def recognized_keys_def text_keys_def only_school_type s1 s2)
  moreover have "build_query_and_params [''school_type'' \<mapsto> ''LP'']
     = Inr (base_query @ '' AND s.school_assam_category_id IN (%s)'' @ order_by, [PInt 1])"
    by (simp add: build_eq all_filters_def all_params_def only_school_type c1 clause_def
        in_clause_def placeholders_def)
  moreover have "build_query_and_params [''school_type'' \<mapsto> ''XX''] = Inr (base_query @ order_by, [])"
    by (simp add: build_eq all_filters_def all_params_def only_school_type c2 clause_def)
  ultimately show ?thesis by simp
qed

subsection \<open>C2: the order of the parameters\<close>

text \<open>
  Claim C2, as amended. The parameter list is, in this order: the district values, the
  block values, the cluster values, the school management values, the geography values
  and the category ids of the school types, with nothing else; the predicates of the
  query text stand in the same order (\<^const>\<open>all_filters\<close>), each with one placeholder
  per value, so the parameters match the placeholders by position.
\<close>

theorem params_in_predicate_order:
  "build_query_and_params q =
     Inr ((if all_filters q = [] then base_query
           else base_query @ '' AND '' @ py_join '' AND '' (all_filters q)) @ order_by,
          map PStr (filter_values q ''district'')
          @ map PStr (filter_values q ''block'')
          @ map PStr (filter_values q ''cluster'')
          @ map PStr (filter_values q ''school_management'')
          @ map PStr (filter_values q ''geography'')
          @ map PInt (category_ids q))"
  by (simp add: build_eq all_params_def)

text \<open>
  Claim C2 as stated fails: for \<^verbatim>\<open>geography=X\<close> the parameter list holds \<^verbatim>\<open>X\<close>,
  while the district, block, cluster and school management values and the category ids
  together are the empty list.
\<close>

theorem geography_param_counterexample:
  "build_query_and_params [''geography'' \<mapsto> ''X'']
     = Inr (base_query @ '' AND g.geography IN (%s)'' @ order_by, [PStr ''X''])
   \<and> map PStr (filter_values [''geography'' \<mapsto> ''X''] ''district'')
       @ map PStr (filter_values [''geography'' \<mapsto> ''X''] ''block'')
       @ map PStr (filter_values [''geography'' \<mapsto> ''X''] ''cluster'')
       @ map PStr (filter_values [''geography'' \<mapsto> ''X''] ''school_management'')
       @ map PInt (category_ids [''geography'' \<mapsto> ''X'']) = []"
proof -
  have g: "filter_values [''geography'' \<mapsto> ''X''] ''geography'' = [''X'']"
    by (simp add: filter_values_def eval_values)
  have c: "category_ids [''geography'' \<mapsto> ''X''] = []"
    by (simp add: category_ids_def only_geography)
  have "build_query_and_params [''geography'' \<mapsto> ''X'']
     = Inr (base_query @ '' AND g.geography IN (%s)'' @ order_by, [PStr ''X''])"
    by (simp add: build_eq all_filters_def all_params_def only_geography g c clause_def
        in_clause_def placeholders_def)
  then show ?thesis by (simp add: only_geography c)
qed

subsection \<open>C3: the geography key\<close>

text \<open>
  Claim C3, as amended. The \<^verbatim>\<open>geography\<close> key is a filter like the other text keys.
  The result is that of the request without the key exactly when its value has no
  non-blank segment. In general the request with the key has, next to what the request
  without it has, the predicate on \<^verbatim>\<open>g.geography\<close> with one placeholder per value,
  after the predicate on the school management and before the one on the category, and
  the geography values as parameters, each as often as it occurs and in their order,
  after the school management values and before the category ids. The values are the
  trimmed non-blank segments of the key's value: \<^verbatim>\<open>geography= G,, G \<close> gives two
  placeholders and the parameter \<^verbatim>\<open>G\<close> twice.
\<close>

theorem geography_is_a_filter:
  "(build_query_and_params q = build_query_and_params (q(''geography'' := None)))
     = (filter_values q ''geography'' = [])
   \<and> (let before = clause ''d.district_name'' (length (filter_values q ''district''))
                     @ clause ''b.block'' (length (filter_values q ''block''))
                     @ clause ''c.cluster'' (length (filter_values q ''cluster''))
                     @ clause ''sm.school_management''
                         (length (filter_values q ''school_management''));
            geo = clause ''g.geography'' (length (filter_values q ''geography''));
            after = clause ''s.school_assam_category_id'' (length (category_ids q));
            params_before = map PStr (filter_values q ''district'')
                            @ map PStr (filter_values q ''block'')
                            @ map PStr (filter_values q ''cluster'')
                            @ map PStr (filter_values q ''school_management'');
            params_after = map PInt (category_ids q);
            text_of = (\<lambda>fs. (if fs = [] then base_query
                              else base_query @ '' AND '' @ py_join '' AND '' fs) @ order_by)
        in build_query_and_params q =
             Inr (text_of (before @ geo @ after),
                  params_before @ map PStr (filter_values q ''geography'') @ params_after)
           \<and> build_query_and_params (q(''geography'' := None)) =
             Inr (text_of (before @ after), params_before @ params_after))
   \<and> (q ''geography'' = Some (py_join '','' segs) \<and> segs \<noteq> []
        \<and> CHR '','' \<notin> set (concat segs)
        \<longrightarrow> filter_values q ''geography'' = filter (\<lambda>v. v \<noteq> []) (map py_strip segs))
   \<and> build_query_and_params
         [''district'' \<mapsto> ''D'', ''geography'' \<mapsto> '' G,, G '', ''school_type'' \<mapsto> ''HS'']
       = Inr (base_query
              @ '' AND d.district_name IN (%s) AND g.geography IN (%s, %s) AND s.school_assam_category_id IN (%s)''
              @ order_by,
              [PStr ''D'', PStr ''G'', PStr ''G'', PInt 3])"
proof -
  have a: "(build_query_and_params q = build_query_and_params (q(''geography'' := None)))
     = (filter_values q ''geography'' = [])"
  proof
    assume "build_query_and_params q = build_query_and_params (q(''geography'' := None))"
    then have "all_params q = all_params (q(''geography'' := None))"
      by (simp add: build_eq)
    then have "length (all_params q) = length (all_params (q(''geography'' := None)))"
      by simp
    with all_params_drop_geography [of q] show "filter_values q ''geography'' = []"
      by simp
  next
    assume "filter_values q ''geography'' = []"
    then show "build_query_and_params q = build_query_and_params (q(''geography'' := None))"
      by (simp add: build_eq all_filters_drop_geography all_params_drop_geography_eq)
  qed
  have b: "let before = clause ''d.district_name'' (length (filter_values q ''district''))
                     @ clause ''b.block'' (length (filter_values q ''block''))
                     @ clause ''c.cluster'' (length (filter_values q ''cluster''))
                     @ clause ''sm.school_management''
                         (length (filter_values q ''school_management''));
            geo = clause ''g.geography'' (length (filter_values q ''geography''));
            after = clause ''s.school_assam_category_id'' (length (category_ids q));
            params_before = map PStr (filter_values q ''district'')
                            @ map PStr (filter_values q ''block'')
                            @ map PStr (filter_values q ''cluster'')
                            @ map PStr (filter_values q ''school_management'');
            params_after = map PInt (category_ids q);
            text_of = (\<lambda>fs. (if fs = [] then base_query
                              else base_query @ '' AND '' @ py_join '' AND '' fs) @ order_by)
        in build_query_and_params q =
             Inr (text_of (before @ geo @ after),
                  params_before @ map PStr (filter_values q ''geography'') @ params_after)
           \<and> build_query_and_params (q(''geography'' := None)) =
             Inr (text_of (before @ after), params_before @ params_after)"
    unfolding Let_def using build_full [of q] build_without_geography [of q] by simp
  have c: "q ''geography'' = Some (py_join '','' segs) \<and> segs \<noteq> []
        \<and> CHR '','' \<notin> set (concat segs)
        \<longrightarrow> filter_values q ''geography'' = filter (\<lambda>v. v \<noteq> []) (map py_strip segs)"
    using filter_values_of_segments [of q "''geography''" segs] by blast
  show ?thesis
    using a b c geography_example by (intro conjI)
qed

text \<open>
  The value \<^verbatim>\<open>" G,, G "\<close>: three segments, one of them blank, the others the same
  value with white space around it.
\<close>

theorem geography_is_a_filter_witness:
  "[''geography'' \<mapsto> '' G,, G ''] ''geography'' = Some (py_join '','' ['' G'', '''', '' G ''])
   \<and> ['' G'', '''', '' G ''] \<noteq> []
   \<and> CHR '','' \<notin> set (concat ['' G'', '''', '' G ''])
   \<and> filter_values [''geography'' \<mapsto> '' G,, G ''] ''geography'' = [''G'', ''G'']"
  using geography_is_a_filter [of "[''geography'' \<mapsto> '' G,, G '']" "['' G'', '''', '' G '']"]
  by (simp add: py_strip_def isspace_def)

text \<open>
  Claim C3 as stated fails: \<^verbatim>\<open>geography=Urban\<close> adds a predicate and a parameter that
  the request without the key does not have.
\<close>

theorem geography_not_ignored_counterexample:
  "build_query_and_params [''geography'' \<mapsto> ''Urban'']
     = Inr (base_query @ '' AND g.geography IN (%s)'' @ order_by, [PStr ''Urban''])
   \<and> build_query_and_params ([''geography'' \<mapsto> ''Urban''](''geography'' := None))
     = Inr (base_query @ order_by, [])
   \<and> build_query_and_params [''geography'' \<mapsto> ''Urban'']
     \<noteq> build_query_and_params ([''geography'' \<mapsto> ''Urban''](''geography'' := None))"
proof -
  have g: "filter_values [''geography'' \<mapsto> ''Urban''] ''geography'' = [''Urban'']"
    by (simp add: filter_values_def eval_values)
  have c: "category_ids [''geography'' \<mapsto> ''Urban''] = []"
    by (simp add: category_ids_def only_geography)
  have a: "build_query_and_params [''geography'' \<mapsto> ''Urban'']
     = Inr (base_query @ '' AND g.geography IN (%s)'' @ order_by, [PStr ''Urban''])"
    by (simp add: build_eq all_filters_def all_params_def only_geography g c clause_def
        in_clause_def placeholders_def)
  have b: "build_query_and_params ([''geography'' \<mapsto> ''Urban''](''geography'' := None))
     = Inr (base_query @ order_by, [])"
    by (simp add: build_eq all_filters_def all_params_def category_ids_def filter_values_empty
        clause_def)
  show ?thesis unfolding a b by simp
qed

subsection \<open>C4: blank segments, duplicates and order\<close>

text \<open>
  Claim C4, as amended. When the value of a key is the comma-free segments \<open>segs\<close>
  joined by commas, \<^const>\<open>add_in_clause\<close> trims every segment, drops the blank ones and keeps all
  the others in their order, a value that occurs twice staying twice: the predicate gets
  one placeholder for each of them and the parameter list gets them appended.
\<close>

theorem add_in_clause_keeps_nonblank_segments:
  assumes "query_params param_name = Some (py_join '','' segs)"
    and "segs \<noteq> []"
    and "CHR '','' \<notin> set (concat segs)"
  shows "add_in_clause query_params field param_name st =
     (let vals = filter (\<lambda>v. v \<noteq> []) (map py_strip segs)
      in if vals = [] then Inr st
         else Inr (st\<lparr>filters := filters st
                         @ [field @ '' IN ('' @ py_join '', '' (replicate (length vals) ''%s'') @ '')''],
                      params := params st @ map PStr vals\<rparr>))"
proof -
  from assms(3) have "\<forall>seg\<in>set segs. CHR '','' \<notin> set seg"
    by auto
  with assms(2) have "split_comma (py_join '','' segs) = segs"
    by (rule split_comma_join)
  with assms(1)
  have "filter_values query_params param_name = filter (\<lambda>v. v \<noteq> []) (map py_strip segs)"
    by (simp add: filter_values_def split_values_def filter_map comp_def)
  then show ?thesis
    by (simp add: add_in_clause_eq in_clause_def placeholders_def Let_def)
qed

text \<open>The value \<^verbatim>\<open>" a,,b , a"\<close>: four segments, one of them blank, one value twice.\<close>

theorem add_in_clause_keeps_nonblank_segments_witness:
  "[''district'' \<mapsto> '' a,,b , a''] ''district'' = Some (py_join '','' ['' a'', '''', ''b '', '' a''])
   \<and> ['' a'', '''', ''b '', '' a''] \<noteq> []
   \<and> CHR '','' \<notin> set (concat ['' a'', '''', ''b '', '' a''])
   \<and> add_in_clause [''district'' \<mapsto> '' a,,b , a''] ''d.district_name'' ''district''
         \<lparr>filters = [], params = []\<rparr>
       = Inr \<lparr>filters = [''d.district_name IN (%s, %s, %s)''],
              params = [PStr ''a'', PStr ''b'', PStr ''a'']\<rparr>"
  using add_in_clause_keeps_nonblank_segments
    [of "[''district'' \<mapsto> '' a,,b , a'']" "''district''" "['' a'', '''', ''b '', '' a'']"
      "''d.district_name''" "\<lparr>filters = [], params = []\<rparr>"]
  by (simp add: py_strip_def isspace_def numeral_3_eq_3)

text \<open>
  Claim C4 as stated fails: \<^verbatim>\<open>district=A,A\<close> gives two placeholders and the
  parameter \<^verbatim>\<open>A\<close> twice; with the duplicate removed there would be one.
\<close>

theorem duplicates_kept_counterexample:
  "build_query_and_params [''district'' \<mapsto> ''A,A'']
     = Inr (base_query @ '' AND d.district_name IN (%s, %s)'' @ order_by, [PStr ''A'', PStr ''A''])
   \<and> [PStr ''A'', PStr ''A''] \<noteq> map PStr (remdups [''A'', ''A''])"
proof -
  have o: "\<And>k. k \<noteq> ''district'' \<Longrightarrow> filter_values [''district'' \<mapsto> ''A,A''] k = []"
    by (simp add: filter_values_def)
  have d: "filter_values [''district'' \<mapsto> ''A,A''] ''district'' = [''A'', ''A'']"
    by (simp add: filter_values_def eval_values)
  have c: "category_ids [''district'' \<mapsto> ''A,A''] = []"
    by (simp add: category_ids_def o)
  have "build_query_and_params [''district'' \<mapsto> ''A,A'']
     = Inr (base_query @ '' AND d.district_name IN (%s, %s)'' @ order_by, [PStr ''A'', PStr ''A''])"
    by (simp add: build_eq all_filters_def all_params_def o d c clause_def
        in_clause_def placeholders_def numeral_2_eq_2)
  then show ?thesis by simp
qed

subsection \<open>C5: school types\<close>

text \<open>
  Claim C5. The table maps exactly \<^verbatim>\<open>LP\<close>, \<^verbatim>\<open>UP\<close>, \<^verbatim>\<open>HS\<close> and \<^verbatim>\<open>HSS\<close>, as
  written, to 1, 2, 3 and 4; the lookup of a list of tokens never raises and gives the
  codes of the mapped tokens in their order, the others dropped; the tokens are the
  trimmed non-blank segments of the key's value; the codes are appended to the
  parameters after everything else, with a predicate on the category column that has one
  placeholder per code and stands last, and with no predicate when there is no code.
  \<^verbatim>\<open>school_type=LP,UP,XX\<close> and \<^verbatim>\<open>school_type= LP , UP,XX \<close> give the codes 1 and 2;
  \<^verbatim>\<open>school_type=ZZ\<close> and \<^verbatim>\<open>school_type=lp, Hs\<close> give no predicate and no parameter;
  \<^verbatim>\<open>district=D\<close> with \<^verbatim>\<open>school_type=HSS, ,LP , HSS\<close> gives the parameters
  \<^verbatim>\<open>D\<close>, 4, 1, 4.
\<close>

theorem school_type_codes:
  "(mappings t = Some c) = ((t, c) \<in> {(''LP'', 1), (''UP'', 2), (''HS'', 3), (''HSS'', 4)})
   \<and> lookup_ids types = Inr (List.map_filter mappings types)
   \<and> (\<exists>st. apply_filters (q(''school_type'' := None)) = Inr st
        \<and> apply_filters q =
            Inr (st\<lparr>filters := filters st
                       @ clause ''s.school_assam_category_id'' (length (category_ids q)),
                    params := params st @ map PInt (category_ids q)\<rparr>))
   \<and> build_query_and_params [''school_type'' \<mapsto> ''LP,UP,XX'']
       = Inr (base_query @ '' AND s.school_assam_category_id IN (%s, %s)'' @ order_by,
              [PInt 1, PInt 2])
   \<and> build_query_and_params [''school_type'' \<mapsto> ''ZZ''] = Inr (base_query @ order_by, [])
   \<and> build_query_and_params [''school_type'' \<mapsto> ''lp, Hs''] = Inr (base_query @ order_by, [])
   \<and> (q ''school_type'' = Some (py_join '','' segs) \<and> segs \<noteq> []
        \<and> CHR '','' \<notin> set (concat segs)
        \<longrightarrow> category_ids q
            = List.map_filter mappings (filter (\<lambda>v. v \<noteq> []) (map py_strip segs)))
   \<and> (let text_filters = clause ''d.district_name'' (length (filter_values q ''district''))
                           @ clause ''b.block'' (length (filter_values q ''block''))
                           @ clause ''c.cluster'' (length (filter_values q ''cluster''))
                           @ clause ''sm.school_management''
                               (length (filter_values q ''school_management''))
                           @ clause ''g.geography'' (length (filter_values q ''geography''));
            text_params = map PStr (filter_values q ''district'')
                          @ map PStr (filter_values q ''block'')
                          @ map PStr (filter_values q ''cluster'')
                          @ map PStr (filter_values q ''school_management'')
                          @ map PStr (filter_values q ''geography'');
            text_of = (\<lambda>fs. (if fs = [] then base_query
                              else base_query @ '' AND '' @ py_join '' AND '' fs) @ order_by)
        in build_query_and_params q =
             Inr (text_of (text_filters
                           @ clause ''s.school_assam_category_id'' (length (category_ids q))),
                  text_params @ map PInt (category_ids q))
           \<and> build_query_and_params (q(''school_type'' := None)) =
             Inr (text_of text_filters, text_params))
   \<and> build_query_and_params [''school_type'' \<mapsto> '' LP , UP,XX '']
       = Inr (base_query @ '' AND s.school_assam_category_id IN (%s, %s)'' @ order_by,
              [PInt 1, PInt 2])
   \<and> build_query_and_params [''district'' \<mapsto> ''D'', ''school_type'' \<mapsto> ''HSS, ,LP , HSS'']
       = Inr (base_query
              @ '' AND d.district_name IN (%s) AND s.school_assam_category_id IN (%s, %s, %s)''
              @ order_by,
              [PStr ''D'', PInt 4, PInt 1, PInt 4])"
proof -
  have a: "\<exists>st. apply_filters (q(''school_type'' := None)) = Inr st
        \<and> apply_filters q =
            Inr (st\<lparr>filters := filters st
                       @ clause ''s.school_assam_category_id'' (length (category_ids q)),
                    params := params st @ map PInt (category_ids q)\<rparr>)"
    using all_filters_drop_school_type [of q] all_params_drop_school_type [of q]
    by (simp add: apply_filters_eq)
  have c1: "category_ids [''school_type'' \<mapsto> ''LP,UP,XX''] = [1, 2]"
    and c2: "category_ids [''school_type'' \<mapsto> ''ZZ''] = []"
    and c3: "category_ids [''school_type'' \<mapsto> ''lp, Hs''] = []"
    by (simp_all add: category_ids_def filter_values_def eval_values mappings_def)
  have b1: "build_query_and_params [''school_type'' \<mapsto> ''LP,UP,XX'']
       = Inr (base_query @ '' AND s.school_assam_category_id IN (%s, %s)'' @ order_by,
              [PInt 1, PInt 2])"
    by (simp add: build_eq all_filters_def all_params_def only_school_type c1 clause_def
        in_clause_def placeholders_def numeral_2_eq_2)
  have b2: "build_query_and_params [''school_type'' \<mapsto> ''ZZ''] = Inr (base_query @ order_by, [])"
    by (simp add: build_eq all_filters_def all_params_def only_school_type c2 clause_def)
  have b3: "build_query_and_params [''school_type'' \<mapsto> ''lp, Hs''] = Inr (base_query @ order_by, [])"
    by (simp add: build_eq all_filters_def all_params_def only_school_type c3 clause_def)
  have d: "q ''school_type'' = Some (py_join '','' segs) \<and> segs \<noteq> []
        \<and> CHR '','' \<notin> set (concat segs)
        \<longrightarrow> category_ids q
            = List.map_filter mappings (filter (\<lambda>v. v \<noteq> []) (map py_strip segs))"
    using filter_values_of_segments [of q "''school_type''" segs]
    by (auto simp: category_ids_def)
  have e: "let text_filters = clause ''d.district_name'' (length (filter_values q ''district''))
                           @ clause ''b.block'' (length (filter_values q ''block''))
                           @ clause ''c.cluster'' (length (filter_values q ''cluster''))
                           @ clause ''sm.school_management''
                               (length (filter_values q ''school_management''))
                           @ clause ''g.geography'' (length (filter_values q ''geography''));
            text_params = map PStr (filter_values q ''district'')
                          @ map PStr (filter_values q ''block'')
                          @ map PStr (filter_values q ''cluster'')
                          @ map PStr (filter_values q ''school_management'')
                          @ map PStr (filter_values q ''geography'');
            text_of = (\<lambda>fs. (if fs = [] then base_query
                              else base_query @ '' AND '' @ py_join '' AND '' fs) @ order_by)
        in build_query_and_params q =
             Inr (text_of (text_filters
                           @ clause ''s.school_assam_category_id'' (length (category_ids q))),
                  text_params @ map PInt (category_ids q))
           \<and> build_query_and_params (q(''school_type'' := None)) =
             Inr (text_of text_filters, text_params)"
    unfolding Let_def using build_full [of q] build_without_school_type [of q] by simp
  show ?thesis
    using mappings_iff [of t c] lookup_ids_eq [of types] a b1 b2 b3 d e
      school_type_spaces_example school_type_order_example
    by (intro conjI)
qed

text \<open>
  The value \<^verbatim>\<open>" LP , UP,XX "\<close>: every token has white space around it, and the
  last one is not in the table.
\<close>

theorem school_type_codes_witness:
  "[''school_type'' \<mapsto> '' LP , UP,XX ''] ''school_type''
     = Some (py_join '','' ['' LP '', '' UP'', ''XX ''])
   \<and> ['' LP '', '' UP'', ''XX ''] \<noteq> []
   \<and> CHR '','' \<notin> set (concat ['' LP '', '' UP'', ''XX ''])
   \<and> category_ids [''school_type'' \<mapsto> '' LP , UP,XX ''] = [1, 2]"
  using school_type_codes [of _ _ _ "[''school_type'' \<mapsto> '' LP , UP,XX '']" "['' LP '', '' UP'', ''XX '']"]
  by (simp add: py_strip_def isspace_def mappings_def)

subsection \<open>C6: no exception, and the request without filters\<close>

text \<open>
  Claim C6. \<^const>\<open>build_query_and_params\<close> returns a query and a parameter list for
  every request: no subscript raises. When every key of \<^const>\<open>recognized_keys\<close> is
  absent or has only blank segments, the query is the base query followed by the
  \<^verbatim>\<open>ORDER BY\<close>, with no predicate added, and the parameter list is empty.
\<close>

theorem build_never_raises_and_blank_request:
  "(\<exists>sql ps. build_query_and_params q = Inr (sql, ps))
   \<and> (list_all (\<lambda>k. blank_value (q k)) recognized_keys
        \<longrightarrow> build_query_and_params q = Inr (base_query @ order_by, []))"
proof
  show "\<exists>sql ps. build_query_and_params q = Inr (sql, ps)"
    by (simp add: build_eq)
next
  show "list_all (\<lambda>k. blank_value (q k)) recognized_keys
        \<longrightarrow> build_query_and_params q = Inr (base_query @ order_by, [])"
  proof
    assume "list_all (\<lambda>k. blank_value (q k)) recognized_keys"
    then have "\<And>k. k \<in> set recognized_keys \<Longrightarrow> filter_values q k = []"
      by (simp add: list_all_iff blank_value_no_values)
    then have "all_filters q = []" and "all_params q = []"
      by (simp_all add: all_filters_def all_params_def category_ids_def recognized_keys_def
          text_keys_def clause_0)
    then show "build_query_and_params q = Inr (base_query @ order_by, [])"
      by (simp add: build_eq)
  qed
qed

text \<open>
  A request with a district of blank segments only, an empty block and a key that is
  not a filter.
\<close>

theorem build_never_raises_and_blank_request_witness:
  "list_all (\<lambda>k. blank_value ([''district'' \<mapsto> '' , ,'', ''block'' \<mapsto> '''', ''format'' \<mapsto> ''json''] k))
     recognized_keys
   \<and> build_query_and_params [''district'' \<mapsto> '' , ,'', ''block'' \<mapsto> '''', ''format'' \<mapsto> ''json'']
     = Inr (base_query @ order_by, [])"
proof -
  have "list_all (\<lambda>k. blank_value ([''district'' \<mapsto> '' , ,'', ''block'' \<mapsto> '''', ''format'' \<mapsto> ''json''] k))
     recognized_keys"
    by (simp add: recognized_keys_def text_keys_def blank_value_def py_strip_def isspace_def)
  with build_never_raises_and_blank_request
    [of "[''district'' \<mapsto> '' , ,'', ''block'' \<mapsto> '''', ''format'' \<mapsto> ''json'']"]
  show ?thesis by blast
qed

subsection \<open>C7: the sort order\<close>

text \<open>
  Claim C7. For every request the query text ends with the \<^verbatim>\<open>ORDER BY\<close> over the id
  columns of the district, the block, the cluster and the school, in this order and
  with no \<^verbatim>\<open>DESC\<close>, followed only by a line break and four spaces.
\<close>

theorem query_ends_with_order_by:
  "\<exists>sql ps. build_query_and_params q = Inr (sql, ps)
     \<and> suffix ''ORDER BY s.district_id, s.block_id, s.cluster_id, s.udise_id\<newline>    '' sql"
proof -
  have "order_by = '' \<newline>        ''
          @ ''ORDER BY s.district_id, s.block_id, s.cluster_id, s.udise_id\<newline>    ''"
    by (simp add: order_by_def)
  then have "build_query_and_params q =
      Inr (((if all_filters q \<noteq> [] then base_query @ '' AND '' @ py_join '' AND '' (all_filters q)
             else base_query) @ '' \<newline>        '')
           @ ''ORDER BY s.district_id, s.block_id, s.cluster_id, s.udise_id\<newline>    '',
           all_params q)"
    by (simp only: build_eq append_assoc)
  then show ?thesis
    unfolding suffix_def by blast
qed

subsection \<open>C9: formats other than JSON\<close>

text \<open>
  Claim C9, as amended. For every request, database and data frame, a format whose
  lower-case form is not \<^verbatim>\<open>json\<close> (\<^verbatim>\<open>xml\<close> is one) gives what the format \<^verbatim>\<open>csv\<close>
  gives: no error, and the CSV rendering when the query succeeds.
\<close>

theorem other_formats_render_as_csv:
  "py_lower f \<noteq> ''json'' \<Longrightarrow>
     export cfg ext (with_format request f) = export cfg ext (with_format request ''csv'')"
  by (simp add: export_with_format py_lower_csv bind_def split: sum.splits prod.splits)

text \<open>The format \<^verbatim>\<open>xml\<close> in the sample deployment.\<close>

theorem other_formats_render_as_csv_witness:
  "py_lower ''xml'' \<noteq> ''json''
   \<and> export sample_config sample_collaborators (with_format (sample_request ''json'') ''xml'')
     = export sample_config sample_collaborators (with_format (sample_request ''json'') ''csv'')"
proof -
  have "py_lower ''xml'' \<noteq> ''json''"
    by (simp add: py_lower_def lower_char_def)
  with other_formats_render_as_csv
    [of "''xml''" sample_config sample_collaborators "sample_request ''json''"]
  show ?thesis by simp
qed

text \<open>
  Claim C9 as stated fails: the format \<^verbatim>\<open>JSON\<close> is not the value \<^verbatim>\<open>json\<close>, and it
  gives the records and not the CSV text.
\<close>

theorem upper_case_json_counterexample:
  "''JSON'' \<noteq> ''json''
   \<and> export sample_config sample_collaborators (sample_request ''JSON'')
       = Inr (Records [[''Kamrup'', ''LP'']])
   \<and> export sample_config sample_collaborators (sample_request ''csv'')
       = Inr (StreamingResponse ''Kamrup,LP'' ''text/csv''
           [(''Content-Disposition'', ''attachment; filename=export.csv'')])"
  by (simp add: export_sample py_lower_def lower_char_def char_of_eq_iff)

subsection \<open>C10: the format is matched without regard to case\<close>

text \<open>
  Claim C10. The endpoint compares the lower-case form of the format: a format gives
  what its lower-case form gives, so \<^verbatim>\<open>JSON\<close> and \<^verbatim>\<open>Json\<close> give what \<^verbatim>\<open>json\<close>
  gives and \<^verbatim>\<open>CSV\<close> what \<^verbatim>\<open>csv\<close> gives; in the sample deployment \<^verbatim>\<open>JSON\<close> gives
  the records and \<^verbatim>\<open>CSV\<close> the CSV text.
\<close>

theorem format_matched_in_lower_case:
  "export cfg ext (with_format request f) = export cfg ext (with_format request (py_lower f))
   \<and> py_lower ''JSON'' = ''json'' \<and> py_lower ''Json'' = ''json'' \<and> py_lower ''CSV'' = ''csv''
   \<and> export cfg ext (with_format request ''JSON'') = export cfg ext (with_format request ''json'')
   \<and> export cfg ext (with_format request ''Json'') = export cfg ext (with_format request ''json'')
   \<and> export cfg ext (with_format request ''CSV'') = export cfg ext (with_format request ''csv'')
   \<and> export sample_config sample_collaborators (sample_request ''JSON'')
       = Inr (Records [[''Kamrup'', ''LP'']])
   \<and> export sample_config sample_collaborators (sample_request ''CSV'')
       = Inr (StreamingResponse ''Kamrup,LP'' ''text/csv''
           [(''Content-Disposition'', ''attachment; filename=export.csv'')])"
proof -
  have l: "py_lower ''JSON'' = ''json''" "py_lower ''Json'' = ''json''" "py_lower ''CSV'' = ''csv''"
    "py_lower ''json'' = ''json''" "py_lower ''csv'' = ''csv''"
    by (simp_all add: py_lower_def lower_char_def char_of_eq_iff)
  have a: "export cfg ext (with_format request f) = export cfg ext (with_format request (py_lower f))"
    unfolding export_with_format py_lower_idem by (rule refl)
  have b: "export cfg ext (with_format request ''JSON'') = export cfg ext (with_format request ''json'')"
    "export cfg ext (with_format request ''Json'') = export cfg ext (with_format request ''json'')"
    "export cfg ext (with_format request ''CSV'') = export cfg ext (with_format request ''csv'')"
    unfolding export_with_format l by (rule refl)+
  have c: "export sample_config sample_collaborators (sample_request ''JSON'')
       = Inr (Records [[''Kamrup'', ''LP'']])"
    "export sample_config sample_collaborators (sample_request ''CSV'')
       = Inr (StreamingResponse ''Kamrup,LP'' ''text/csv''
           [(''Content-Disposition'', ''attachment; filename=export.csv'')])"
    by (simp_all add: export_sample l)
  show ?thesis using l(1-3) a b c by (intro conjI)
qed

end
